theory Spec2Isabelle
  imports Complex_Main "HOL-Library.Word"
begin

section \<open>JavaScript numbers\<close>

text \<open>
  A JavaScript \<open>number\<close> is modelled as either \<open>NaN\<close> or an exact rational.
  Rounding of IEEE doubles and the infinities are not modelled; on the concrete values
  used below (small integers, and their products with 0.2) double arithmetic gives the
  same results.
\<close>

datatype jsnum = NaN | Num rat

fun truthy :: "jsnum \<Rightarrow> bool" where
  "truthy NaN = False"
| "truthy (Num r) = (r \<noteq> 0)"

text \<open>\<open>a || b\<close> on numbers: \<open>b\<close> when \<open>a\<close> is \<open>0\<close> or \<open>NaN\<close>.\<close>

definition jsor :: "jsnum \<Rightarrow> jsnum \<Rightarrow> jsnum" where
  "jsor a b = (if truthy a then a else b)"

fun jadd :: "jsnum \<Rightarrow> jsnum \<Rightarrow> jsnum" where
  "jadd (Num a) (Num b) = Num (a + b)"
| "jadd _ _ = NaN"

fun jmul :: "jsnum \<Rightarrow> jsnum \<Rightarrow> jsnum" where
  "jmul (Num a) (Num b) = Num (a * b)"
| "jmul _ _ = NaN"

text \<open>\<open>a > b\<close> and \<open>a >= b\<close>: every comparison with \<open>NaN\<close> is false.\<close>

fun jgt :: "jsnum \<Rightarrow> jsnum \<Rightarrow> bool" where
  "jgt (Num a) (Num b) = (a > b)"
| "jgt _ _ = False"

fun jge :: "jsnum \<Rightarrow> jsnum \<Rightarrow> bool" where
  "jge (Num a) (Num b) = (a \<ge> b)"
| "jge _ _ = False"

fun isNum :: "jsnum \<Rightarrow> bool" where
  "isNum NaN = False"
| "isNum (Num r) = True"



section \<open>Invoice line items (shared/schema.ts)\<close>

text \<open>
  \<open>InvoiceItem\<close> is the row type of table \<open>invoice_items\<close>; the field \<open>id\<close> is
  named \<open>itemId\<close> here. \<open>PartialInvoiceItem\<close> is \<open>Partial<InvoiceItem>\<close>: \<open>None\<close> is
  an absent (undefined) field.
\<close>

record InvoiceItem =
  itemId :: int
  invoiceId :: int
  description :: string
  quantity :: jsnum
  unitPrice :: jsnum
  total :: jsnum

record PartialInvoiceItem =
  p_itemId :: "int option"
  p_invoiceId :: "int option"
  p_description :: "string option"
  p_quantity :: "jsnum option"
  p_unitPrice :: "jsnum option"
  p_total :: "jsnum option"


section \<open>The line-item row (components/invoices/line-item.tsx, src/unnamed/part_002)\<close>

text \<open>\<open>{...item}\<close>: every field of the row's item, present.\<close>

definition spread :: "InvoiceItem \<Rightarrow> PartialInvoiceItem" where
  "spread item =
     \<lparr>p_itemId = Some (itemId item), p_invoiceId = Some (invoiceId item),
      p_description = Some (description item), p_quantity = Some (quantity item),
      p_unitPrice = Some (unitPrice item), p_total = Some (total item)\<rparr>"

text \<open>
  The handlers return the object they pass to \<open>onChange\<close>. The argument \<open>parsed\<close> is
  the value of \<open>parseInt(e.target.value)\<close>, respectively \<open>parseFloat(e.target.value)\<close>:
  \<open>NaN\<close> for a text that is not numeric.
\<close>

definition handleDescriptionChange :: "InvoiceItem \<Rightarrow> string \<Rightarrow> PartialInvoiceItem" where
  "handleDescriptionChange item newDescription =
     (spread item)\<lparr>p_description := Some newDescription\<rparr>"

definition handleQuantityChange :: "InvoiceItem \<Rightarrow> jsnum \<Rightarrow> PartialInvoiceItem" where
  "handleQuantityChange item parsed =
     (let newQuantity = jsor parsed (Num 0);
          qty = (if jgt newQuantity (Num 0) then newQuantity else Num 1);
          numericUnitPrice = jsor (unitPrice item) (Num 0);
          newTotal = jmul qty numericUnitPrice
      in (spread item)\<lparr>p_quantity := Some qty, p_total := Some newTotal\<rparr>)"

definition handleUnitPriceChange :: "InvoiceItem \<Rightarrow> jsnum \<Rightarrow> PartialInvoiceItem" where
  "handleUnitPriceChange item parsed =
     (let newPrice = jsor parsed (Num 0);
          price = (if jge newPrice (Num 0) then newPrice else Num 0);
          numericQuantity = jsor (quantity item) (Num 1);
          newTotal = jmul numericQuantity price
      in (spread item)\<lparr>p_unitPrice := Some price, p_total := Some newTotal\<rparr>)"


section \<open>The invoice edit state (components/invoices/invoice-form.tsx)\<close>

record Calculations =
  calc_subtotal :: jsnum
  calc_tax :: jsnum
  calc_total :: jsnum

record EditState =
  lineItems :: "InvoiceItem list"
  calculations :: Calculations

text \<open>
  The block "Recalculate totals", which \<open>handleLineItemChange\<close>, \<open>addLineItem\<close> and
  \<open>removeLineItem\<close> each repeat: the sum of the \<open>total\<close> fields, 20 percent VAT.
\<close>

definition recalculate :: "InvoiceItem list \<Rightarrow> Calculations" where
  "recalculate newLineItems =
     (let subtotal = foldl (\<lambda>sum item. jadd sum (jsor (total item) (Num 0))) (Num 0) newLineItems;
          taxRate = Num (1 / 5);
          tax = jmul subtotal taxRate;
          tot = jadd subtotal tax
      in \<lparr>calc_subtotal = subtotal, calc_tax = tax, calc_total = tot\<rparr>)"

text \<open>
  \<open>{...lineItem, ...item, description, quantity, unitPrice, total}\<close> for the row at
  \<open>index\<close>. The fields are numbers by their type, so the \<open>typeof ... === 'number'\<close>
  tests succeed and the \<open>parseInt\<close>/\<open>parseFloat\<close> fallbacks are not reached.
\<close>

definition changedItem :: "InvoiceItem \<Rightarrow> PartialInvoiceItem \<Rightarrow> InvoiceItem" where
  "changedItem lineItem item =
     (let newQuantity = (case p_quantity item of Some q \<Rightarrow> q | None \<Rightarrow> quantity lineItem);
          newUnitPrice = (case p_unitPrice item of Some p \<Rightarrow> p | None \<Rightarrow> unitPrice lineItem)
      in \<lparr>itemId = (case p_itemId item of Some i \<Rightarrow> i | None \<Rightarrow> itemId lineItem),
          invoiceId = (case p_invoiceId item of Some i \<Rightarrow> i | None \<Rightarrow> invoiceId lineItem),
          description = (case p_description item of Some d \<Rightarrow> d | None \<Rightarrow> description lineItem),
          quantity = newQuantity,
          unitPrice = newUnitPrice,
          total = (case p_total item of Some t \<Rightarrow> t | None \<Rightarrow> jmul newQuantity newUnitPrice)\<rparr>)"

definition handleLineItemChange :: "EditState \<Rightarrow> nat \<Rightarrow> PartialInvoiceItem \<Rightarrow> EditState" where
  "handleLineItemChange st index item =
     (let newLineItems =
            map (\<lambda>(i, lineItem). if i \<noteq> index then lineItem else changedItem lineItem item)
                (enumerate 0 (lineItems st))
      in \<lparr>lineItems = newLineItems, calculations = recalculate newLineItems\<rparr>)"

text \<open>\<open>existingInvoice?.id || 0\<close>; the argument is the id of the invoice being edited, if any.\<close>

definition existingId :: "int option \<Rightarrow> int" where
  "existingId existingInvoice =
     (case existingInvoice of None \<Rightarrow> 0 | Some i \<Rightarrow> if i = 0 then 0 else i)"

definition emptyLineItem :: "int option \<Rightarrow> InvoiceItem" where
  "emptyLineItem existingInvoice =
     \<lparr>itemId = 0, invoiceId = existingId existingInvoice, description = [],
      quantity = Num 1, unitPrice = Num 0, total = Num 0\<rparr>"

definition addLineItem :: "int option \<Rightarrow> EditState \<Rightarrow> EditState" where
  "addLineItem existingInvoice st =
     (let newLineItem = emptyLineItem existingInvoice;
          newLineItems = lineItems st @ [newLineItem]
      in \<lparr>lineItems = newLineItems, calculations = recalculate newLineItems\<rparr>)"

definition removeLineItem :: "int option \<Rightarrow> EditState \<Rightarrow> nat \<Rightarrow> EditState" where
  "removeLineItem existingInvoice st index =
     (let filtered = map snd (filter (\<lambda>(i, lineItem). i \<noteq> index) (enumerate 0 (lineItems st)));
          newLineItems = (if length filtered = 0 then filtered @ [emptyLineItem existingInvoice]
                          else filtered)
      in \<lparr>lineItems = newLineItems, calculations = recalculate newLineItems\<rparr>)"

text \<open>The state the form starts in (the two \<open>useState\<close> calls).\<close>

definition initialState :: EditState where
  "initialState =
     \<lparr>lineItems = [\<lparr>itemId = 0, invoiceId = 0, description = [],
                     quantity = Num 1, unitPrice = Num 0, total = Num 0\<rparr>],
      calculations = \<lparr>calc_subtotal = Num 0, calc_tax = Num 0, calc_total = Num 0\<rparr>\<rparr>"


section \<open>Password hashes (server/auth.ts, src/unnamed/part_005)\<close>

text \<open>
  Buffers are lists of bytes. \<open>fromHex\<close> is \<open>Buffer.from(s, "hex")\<close>: it decodes pairs of
  hexadecimal digits and stops at the first pair that is not one; \<open>toHex\<close> is
  \<open>buf.toString("hex")\<close>.
\<close>

type_synonym byte = "8 word"

definition hexval :: "char \<Rightarrow> nat option" where
  "hexval c =
     (let n = (of_char c :: nat)
      in if 48 \<le> n \<and> n \<le> 57 then Some (n - 48)
         else if 97 \<le> n \<and> n \<le> 102 then Some (n - 87)
         else if 65 \<le> n \<and> n \<le> 70 then Some (n - 55)
         else None)"

fun fromHex :: "string \<Rightarrow> byte list" where
  "fromHex (a # b # rest) =
     (case hexval a of
        None \<Rightarrow> []
      | Some h \<Rightarrow> (case hexval b of
                    None \<Rightarrow> []
                  | Some l \<Rightarrow> of_nat (16 * h + l) # fromHex rest))"
| "fromHex _ = []"

definition hexchar :: "nat \<Rightarrow> char" where
  "hexchar n = (if n < 10 then char_of (48 + n) else char_of (87 + n))"

definition toHex :: "byte list \<Rightarrow> string" where
  "toHex buf = concat (map (\<lambda>b. [hexchar (unat b div 16), hexchar (unat b mod 16)]) buf)"

text \<open>\<open>s.split(c)\<close>, \<open>s.includes(c)\<close> for a one-character separator, and \<open>s.startsWith(p)\<close>.\<close>

fun splitOn :: "char \<Rightarrow> string \<Rightarrow> string list" where
  "splitOn c [] = [[]]"
| "splitOn c (x # xs) =
     (if x = c then [] # splitOn c xs
      else (case splitOn c xs of
              [] \<Rightarrow> [[x]]
            | seg # segs \<Rightarrow> (x # seg) # segs))"

definition includesChar :: "string \<Rightarrow> char \<Rightarrow> bool" where
  "includesChar s c = (c \<in> set s)"

definition startsWith :: "string \<Rightarrow> string \<Rightarrow> bool" where
  "startsWith s p = (take (length p) s = p)"

text \<open>The two special cases written into \<open>comparePasswords\<close>.\<close>

definition adminSpecialCase :: "string \<Rightarrow> string \<Rightarrow> bool" where
  "adminSpecialCase supplied stored =
     (supplied = ''admin'' \<and>
      (startsWith stored ''8c6976e5b5410415bde908bd4dee15dfb167a9c873fc4bb8a81f6f2ab448a918'' \<or>
       startsWith stored ''a665a45920422f9d417e4867efdc4fb8a04a1f3fff1fa07e998e86f7f7a27ae3''))"

definition testSpecialCase :: "string \<Rightarrow> string \<Rightarrow> bool" where
  "testSpecialCase supplied stored =
     (supplied = ''test'' \<and>
      startsWith stored ''9f86d081884c7d659a2feaa0c55ad015a3bf4f1b2b0b822cd15d6c15b0f00a08'')"

text \<open>
  \<open>comparePasswords\<close>. The key derivation function of Node's \<open>crypto\<close> module is the
  parameter \<open>scrypt\<close> (password, salt, key length).
\<close>

definition comparePasswords ::
  "(string \<Rightarrow> string \<Rightarrow> nat \<Rightarrow> byte list) \<Rightarrow> string \<Rightarrow> string \<Rightarrow> bool" where
  "comparePasswords scrypt supplied stored =
     (if stored = [] \<or> \<not> includesChar stored (CHR ''.'') then False
      else (case splitOn (CHR ''.'') stored of
              hashed # salt # _ \<Rightarrow>
                if hashed = [] \<or> salt = [] then False
                else if adminSpecialCase supplied stored then True
                else if testSpecialCase supplied stored then True
                else (let hashedBuf = fromHex hashed;
                          suppliedBuf = scrypt supplied salt 64
                      in if length hashedBuf \<noteq> length suppliedBuf
                         then hashed = toHex suppliedBuf
                         else hashedBuf = suppliedBuf)
            | _ \<Rightarrow> False))"


section \<open>Users and the storage layer (shared/schema.ts, server/storage.ts)\<close>

text \<open>The field \<open>id\<close> of a user is named \<open>userId\<close>.\<close>

record User =
  userId :: int
  username :: string
  password :: string
  email :: string
  fullName :: string
  role :: string
  approved :: bool
  createdAt :: nat

text \<open>\<open>Partial<InsertUser>\<close>.\<close>

record PartialUser =
  u_username :: "string option"
  u_password :: "string option"
  u_email :: "string option"
  u_fullName :: "string option"
  u_role :: "string option"
  u_approved :: "bool option"

text \<open>The field \<open>id\<close> of an invoice is named \<open>invId\<close>, its \<open>total\<close> is \<open>invoiceTotal\<close>, its \<open>notes\<close> are \<open>invoiceNotes\<close>.\<close>

record Invoice =
  invId :: int
  invoiceNumber :: string
  jobId :: int
  customerId :: int
  amount :: jsnum
  tax :: jsnum
  invoiceTotal :: jsnum
  issueDate :: nat
  dueDate :: nat
  invoiceNotes :: "string option"
  paymentTerms :: string
  paymentMethod :: string
  status :: string
  createdBy :: int

text \<open>\<open>InsertInvoice\<close> and \<open>InsertInvoiceItem\<close>: the rows without their serial id.\<close>

record InsertInvoice =
  n_invoiceNumber :: string
  n_jobId :: int
  n_customerId :: int
  n_amount :: jsnum
  n_tax :: jsnum
  n_total :: jsnum
  n_issueDate :: nat
  n_dueDate :: nat
  n_notes :: "string option"
  n_paymentTerms :: string
  n_paymentMethod :: string
  n_status :: "string option"
  n_createdBy :: int

record InsertInvoiceItem =
  m_invoiceId :: int
  m_description :: string
  m_quantity :: jsnum
  m_unitPrice :: jsnum
  m_total :: jsnum

text \<open>
  The database: the three tables the model needs, rows in insertion order, and the
  next values of the serial ids of the two tables the model inserts into.
\<close>

record DB =
  users :: "User list"
  invoices :: "Invoice list"
  invoiceItems :: "InvoiceItem list"
  nextInvoiceId :: int
  nextItemId :: int

definition getUser :: "DB \<Rightarrow> int \<Rightarrow> User option" where
  "getUser db uid = find (\<lambda>u. userId u = uid) (users db)"

definition getUserByUsername :: "DB \<Rightarrow> string \<Rightarrow> User option" where
  "getUserByUsername db name = find (\<lambda>u. username u = name) (users db)"

definition setUser :: "PartialUser \<Rightarrow> User \<Rightarrow> User" where
  "setUser userData u =
     u\<lparr>username := (case u_username userData of Some v \<Rightarrow> v | None \<Rightarrow> username u),
       password := (case u_password userData of Some v \<Rightarrow> v | None \<Rightarrow> password u),
       email := (case u_email userData of Some v \<Rightarrow> v | None \<Rightarrow> email u),
       fullName := (case u_fullName userData of Some v \<Rightarrow> v | None \<Rightarrow> fullName u),
       role := (case u_role userData of Some v \<Rightarrow> v | None \<Rightarrow> role u),
       approved := (case u_approved userData of Some v \<Rightarrow> v | None \<Rightarrow> approved u)\<rparr>"

text \<open>
  \<open>updateUser\<close>: \<open>UPDATE ... WHERE id = uid RETURNING *\<close>, then \<open>result[0]\<close>. The one
  caller in this model passes \<open>{ approved: true }\<close>.
\<close>

definition updateUser :: "DB \<Rightarrow> int \<Rightarrow> PartialUser \<Rightarrow> User option \<times> DB" where
  "updateUser db uid userData =
     (let rows = map (\<lambda>u. if userId u = uid then setUser userData u else u) (users db);
          result = filter (\<lambda>u. userId u = uid) rows
      in (case result of [] \<Rightarrow> None | r # _ \<Rightarrow> Some r, db\<lparr>users := rows\<rparr>))"

definition deleteUser :: "DB \<Rightarrow> int \<Rightarrow> bool \<times> DB" where
  "deleteUser db uid = (True, db\<lparr>users := filter (\<lambda>u. userId u \<noteq> uid) (users db)\<rparr>)"

text \<open>\<open>createInvoice\<close>: the insert fails on a duplicate invoice number (the column is unique).\<close>

definition createInvoice :: "DB \<Rightarrow> InsertInvoice \<Rightarrow> (Invoice \<times> DB) option" where
  "createInvoice db v =
     (if n_invoiceNumber v \<in> set (map invoiceNumber (invoices db)) then None
      else (let row = \<lparr>invId = nextInvoiceId db, invoiceNumber = n_invoiceNumber v,
                       jobId = n_jobId v, customerId = n_customerId v,
                       amount = n_amount v, tax = n_tax v, invoiceTotal = n_total v,
                       issueDate = n_issueDate v, dueDate = n_dueDate v, invoiceNotes = n_notes v,
                       paymentTerms = n_paymentTerms v, paymentMethod = n_paymentMethod v,
                       status = (case n_status v of Some s \<Rightarrow> s | None \<Rightarrow> ''draft''),
                       createdBy = n_createdBy v\<rparr>
            in Some (row, db\<lparr>invoices := invoices db @ [row],
                             nextInvoiceId := nextInvoiceId db + 1\<rparr>)))"

definition createInvoiceItem :: "DB \<Rightarrow> InsertInvoiceItem \<Rightarrow> InvoiceItem \<times> DB" where
  "createInvoiceItem db insertItem =
     (let row = \<lparr>itemId = nextItemId db, invoiceId = m_invoiceId insertItem,
                 description = m_description insertItem,
                 quantity = jsor (m_quantity insertItem) (Num 1),
                 unitPrice = jsor (m_unitPrice insertItem) (Num 0),
                 total = jsor (m_total insertItem) (Num 0)\<rparr>
      in (row, db\<lparr>invoiceItems := invoiceItems db @ [row], nextItemId := nextItemId db + 1\<rparr>))"


section \<open>Authentication and user administration (server/auth.ts, src/unnamed/part_005)\<close>

text \<open>The verify callback of the local strategy: \<open>done(null, user)\<close> or \<open>done(null, false, {message})\<close>.\<close>

datatype authResult = AuthOk User | AuthFail string

definition verify ::
  "(string \<Rightarrow> string \<Rightarrow> nat \<Rightarrow> byte list) \<Rightarrow> DB \<Rightarrow> string \<Rightarrow> string \<Rightarrow> authResult" where
  "verify scrypt db name pw =
     (case getUserByUsername db name of
        None \<Rightarrow> AuthFail ''Invalid username or password''
      | Some user \<Rightarrow>
          if \<not> comparePasswords scrypt pw (password user)
          then AuthFail ''Invalid username or password''
          else if role user \<noteq> ''admin'' \<and> \<not> approved user
          then AuthFail ''Your account is pending approval by an administrator''
          else AuthOk user)"

text \<open>
  What a handler answers: a bare status, a status with a JSON message, with a user,
  with an invoice and its line items, or with an empty body; \<open>NextError\<close> is an
  exception handed to \<open>next(error)\<close>. The \<open>details\<close> text of the reply to an invalid
  invoice is left out.
\<close>

datatype reply =
    SendStatus nat
  | Message nat string
  | UserJson nat User
  | InvoiceJson nat Invoice "InvoiceItem list"
  | Empty nat
  | NextError

text \<open>
  The middleware \<open>isAdmin\<close>: the reply that ends the request, or \<open>None\<close> for \<open>next()\<close>.
  The argument is \<open>req.user\<close>, \<open>None\<close> when the request is not authenticated.
\<close>

definition isAdmin :: "User option \<Rightarrow> reply option" where
  "isAdmin caller =
     (case caller of
        None \<Rightarrow> Some (Message 401 ''You must be logged in'')
      | Some u \<Rightarrow>
          if role u \<noteq> ''admin''
          then Some (Message 403 ''You must be an administrator to access this resource'')
          else None)"

text \<open>
  \<open>PATCH /api/users/:id/approve\<close> and \<open>DELETE /api/users/:id\<close>. The argument \<open>parsed\<close> is
  \<open>parseInt(req.params.id)\<close>, \<open>None\<close> for \<open>NaN\<close>.
\<close>

definition patchUsersApprove :: "DB \<Rightarrow> User option \<Rightarrow> int option \<Rightarrow> reply \<times> DB" where
  "patchUsersApprove db caller parsed =
     (case isAdmin caller of
        Some r \<Rightarrow> (r, db)
      | None \<Rightarrow>
          (case parsed of
             None \<Rightarrow> (Message 400 ''Invalid user ID'', db)
           | Some uid \<Rightarrow>
               (case updateUser db uid
                       \<lparr>u_username = None, u_password = None, u_email = None,
                        u_fullName = None, u_role = None, u_approved = Some True\<rparr> of
                  (None, db') \<Rightarrow> (Message 404 ''User not found'', db')
                | (Some updatedUser, db') \<Rightarrow> (UserJson 200 updatedUser, db'))))"

definition deleteUsers :: "DB \<Rightarrow> User option \<Rightarrow> int option \<Rightarrow> reply \<times> DB" where
  "deleteUsers db caller parsed =
     (case isAdmin caller of
        Some r \<Rightarrow> (r, db)
      | None \<Rightarrow>
          (case parsed of
             None \<Rightarrow> (Message 400 ''Invalid user ID'', db)
           | Some uid \<Rightarrow>
               (case deleteUser db uid of
                  (success, db') \<Rightarrow>
                    if \<not> success then (Message 404 ''User not found'', db')
                    else (Message 200 ''User deleted successfully'', db'))))"


section \<open>Staff and invoice routes (server/routes.ts, the second part of src/server/storage.ts)\<close>

text \<open>
  \<open>DELETE /api/staff/:id\<close>. \<open>parseInt(req.params.id)\<close> is \<open>parsed\<close>; a \<open>NaN\<close> is equal to
  no id and is handed to \<open>deleteUser\<close>, whose query on the integer column then fails.
\<close>

definition deleteStaff :: "DB \<Rightarrow> User option \<Rightarrow> int option \<Rightarrow> reply \<times> DB" where
  "deleteStaff db caller parsed =
     (case caller of
        None \<Rightarrow> (SendStatus 401, db)
      | Some u \<Rightarrow>
          if role u \<noteq> ''admin'' then (Message 403 ''Unauthorized access'', db)
          else if parsed = Some (userId u)
          then (Message 400 ''Cannot delete your own account'', db)
          else (case parsed of
                  None \<Rightarrow> (NextError, db)
                | Some uid \<Rightarrow>
                    (case deleteUser db uid of
                       (success, db') \<Rightarrow>
                         if \<not> success then (Message 404 ''User not found'', db')
                         else (Empty 204, db'))))"

text \<open>
  The body of \<open>POST /api/invoices\<close>. A field is absent (\<open>None\<close>) or has a value of its
  JSON type; dates are milliseconds. \<open>b_lineItems\<close> is \<open>None\<close> when the field is not an
  array.
\<close>

record ItemBody =
  i_description :: "string option"
  i_quantity :: "rat option"
  i_unitPrice :: "rat option"
  i_total :: "rat option"

record InvoiceBody =
  b_invoiceNumber :: "string option"
  b_jobId :: "int option"
  b_customerId :: "int option"
  b_amount :: "rat option"
  b_tax :: "rat option"
  b_total :: "rat option"
  b_issueDate :: "nat option"
  b_dueDate :: "nat option"
  b_notes :: "string option"
  b_paymentTerms :: "string option"
  b_paymentMethod :: "string option"
  b_status :: "string option"
  b_lineItems :: "ItemBody list option"

text \<open>
  \<open>parseFloat(String(x || d))\<close> and \<open>parseInt(String(x || d))\<close> for a JSON number or an
  absent field \<open>x\<close>: the default when \<open>x\<close> is absent or zero; \<open>parseInt\<close> cuts the
  fraction off (of a number that \<open>String\<close> writes without an exponent).
\<close>

definition parseFloatOr :: "rat option \<Rightarrow> rat \<Rightarrow> jsnum" where
  "parseFloatOr x d = (case x of None \<Rightarrow> Num d | Some r \<Rightarrow> if r = 0 then Num d else Num r)"

definition parseIntOr :: "rat option \<Rightarrow> rat \<Rightarrow> jsnum" where
  "parseIntOr x d =
     (let r = (case x of None \<Rightarrow> d | Some r \<Rightarrow> if r = 0 then d else r)
      in Num (of_int (if 0 \<le> r then \<lfloor>r\<rfloor> else \<lceil>r\<rceil>)))"

text \<open>
  \<open>insertInvoiceItemSchema.parse\<close> on the object the handler builds: it throws (\<open>None\<close>)
  when the description is missing, the columns being \<open>notNull\<close>.
\<close>

definition parseItem :: "int \<Rightarrow> ItemBody \<Rightarrow> InsertInvoiceItem option" where
  "parseItem iid item =
     (case i_description item of
        None \<Rightarrow> None
      | Some d \<Rightarrow>
          Some \<lparr>m_invoiceId = iid, m_description = d,
                m_quantity = parseIntOr (i_quantity item) 1,
                m_unitPrice = parseFloatOr (i_unitPrice item) 0,
                m_total = parseFloatOr (i_total item) 0\<rparr>)"

text \<open>
  The loop over the line items, with its \<open>try\<close>/\<open>catch\<close> inside: an item that does
  not validate is logged and skipped.
\<close>

fun createLineItems ::
  "DB \<Rightarrow> int \<Rightarrow> ItemBody list \<Rightarrow> InvoiceItem list \<Rightarrow> InvoiceItem list \<times> DB" where
  "createLineItems db iid [] createdLineItems = (createdLineItems, db)"
| "createLineItems db iid (item # rest) createdLineItems =
     (case parseItem iid item of
        None \<Rightarrow> createLineItems db iid rest createdLineItems
      | Some validatedItemData \<Rightarrow>
          (case createInvoiceItem db validatedItemData of
             (lineItem, db') \<Rightarrow> createLineItems db' iid rest (createdLineItems @ [lineItem])))"

text \<open>
  \<open>insertInvoiceSchema.parse\<close> on the object the handler builds, with the job and the
  customer id the handler has found present: it throws (\<open>None\<close>) when the payment terms
  or the payment method are missing. \<open>now\<close> is the clock.
\<close>

definition parseInvoice ::
  "User \<Rightarrow> nat \<Rightarrow> string \<Rightarrow> int \<Rightarrow> int \<Rightarrow> InvoiceBody \<Rightarrow> InsertInvoice option" where
  "parseInvoice user now number job customer invoiceData =
     (case (b_paymentTerms invoiceData, b_paymentMethod invoiceData) of
        (Some terms, Some method) \<Rightarrow>
          Some \<lparr>n_invoiceNumber = number,
                n_jobId = job,
                n_customerId = customer,
                n_amount = parseFloatOr (b_amount invoiceData) 0,
                n_tax = parseFloatOr (b_tax invoiceData) 0,
                n_total = parseFloatOr (b_total invoiceData) 0,
                n_issueDate = (case b_issueDate invoiceData of Some d \<Rightarrow> d | None \<Rightarrow> now),
                n_dueDate = (case b_dueDate invoiceData of
                               Some d \<Rightarrow> d
                             | None \<Rightarrow> now + 30 * 24 * 60 * 60 * 1000),
                n_notes = b_notes invoiceData,
                n_paymentTerms = terms,
                n_paymentMethod = method,
                n_status = b_status invoiceData,
                n_createdBy = userId user\<rparr>
      | _ \<Rightarrow> None)"

text \<open>
  \<open>POST /api/invoices\<close>. \<open>generated\<close> is the four digits that
  \<open>Math.floor(Math.random() * 10000).toString().padStart(4, '0')\<close> gives.
\<close>

definition postInvoices ::
  "DB \<Rightarrow> User option \<Rightarrow> nat \<Rightarrow> string \<Rightarrow> InvoiceBody \<Rightarrow> reply \<times> DB" where
  "postInvoices db caller now generated body =
     (case caller of
        None \<Rightarrow> (SendStatus 401, db)
      | Some user \<Rightarrow>
          (case b_jobId body of
             None \<Rightarrow> (Message 400 ''Job ID is required'', db)
           | Some job \<Rightarrow>
               if job = 0 then (Message 400 ''Job ID is required'', db)
               else
                 (case b_customerId body of
                    None \<Rightarrow> (Message 400 ''Customer ID is required'', db)
                  | Some customer \<Rightarrow>
                      if customer = 0 then (Message 400 ''Customer ID is required'', db)
                      else
                        (case b_lineItems body of
                           None \<Rightarrow> (Message 400 ''At least one line item is required'', db)
                         | Some [] \<Rightarrow> (Message 400 ''At least one line item is required'', db)
                         | Some items \<Rightarrow>
                             (let number =
                                    (case b_invoiceNumber body of
                                       None \<Rightarrow> ''INV-'' @ generated
                                     | Some n \<Rightarrow> if n = [] then ''INV-'' @ generated else n)
                              in case parseInvoice user now number job customer body of
                                   None \<Rightarrow> (Message 400 ''Invalid invoice data'', db)
                                 | Some validatedInvoiceData \<Rightarrow>
                                     (case createInvoice db validatedInvoiceData of
                                        None \<Rightarrow> (Message 400 ''Invalid invoice data'', db)
                                      | Some (invoice, db1) \<Rightarrow>
                                          (case createLineItems db1 (invId invoice) items [] of
                                             (createdLineItems, db2) \<Rightarrow>
                                               (InvoiceJson 201 invoice createdLineItems, db2))))))))"


section \<open>Auxiliary definitions\<close>

text \<open>What \<open>updateUser\<close> with \<open>{ approved: true }\<close> does to one row.\<close>

definition approveRow :: "int \<Rightarrow> User \<Rightarrow> User" where
  "approveRow uid u = (if userId u = uid then u\<lparr>approved := True\<rparr> else u)"

text \<open>
  Concrete data for the examples. \<open>zeroKdf\<close> stands in for the key derivation function
  where an example has to run one: it returns \<open>keylen\<close> zero bytes.
\<close>

definition zeroKdf :: "string \<Rightarrow> string \<Rightarrow> nat \<Rightarrow> byte list" where
  "zeroKdf pw salt keylen = replicate keylen 0"

definition adminUser :: User where
  "adminUser =
     \<lparr>userId = 1, username = ''admin'', password = replicate 128 (CHR ''1'') @ ''.cd'',
      email = ''admin@frostys.com'', fullName = ''Administrator'',
      role = ''admin'', approved = True, createdAt = 0\<rparr>"

definition bob :: User where
  "bob =
     \<lparr>userId = 2, username = ''bob'', password = replicate 128 (CHR ''0'') @ ''.ab'',
      email = ''bob@frostys.com'', fullName = ''Bob'',
      role = ''staff'', approved = False, createdAt = 1\<rparr>"

definition db0 :: DB where
  "db0 = \<lparr>users = [adminUser, bob], invoices = [], invoiceItems = [],
           nextInvoiceId = 1, nextItemId = 1\<rparr>"

definition iceBlasting :: ItemBody where
  "iceBlasting = \<lparr>i_description = Some ''Ice Blasting'', i_quantity = Some 2,
                   i_unitPrice = Some 100, i_total = Some 200\<rparr>"

definition noDescription :: ItemBody where
  "noDescription = \<lparr>i_description = None, i_quantity = Some 1,
                     i_unitPrice = Some 50, i_total = Some 50\<rparr>"

definition invoiceBody :: "rat \<Rightarrow> ItemBody list \<Rightarrow> InvoiceBody" where
  "invoiceBody n items =
     \<lparr>b_invoiceNumber = None, b_jobId = Some 7, b_customerId = Some 3,
      b_amount = Some n, b_tax = Some n, b_total = Some n,
      b_issueDate = Some 1000, b_dueDate = Some 2000, b_notes = None,
      b_paymentTerms = Some ''30'', b_paymentMethod = Some ''bank-transfer'',
      b_status = Some ''draft'', b_lineItems = Some items\<rparr>"


definition mispriced :: PartialInvoiceItem where
  "mispriced = \<lparr>p_itemId = None, p_invoiceId = None, p_description = None,
                 p_quantity = Some (Num 2), p_unitPrice = Some (Num 100),
                 p_total = Some (Num 5)\<rparr>"



text \<open>The first of the digests that the admin special case looks for.\<close>

definition adminDigest :: string where
  "adminDigest = ''8c6976e5b5410415bde908bd4dee15dfb167a9c873fc4bb8a81f6f2ab448a918''"

text \<open>
  What \<open>POST /api/invoices\<close> stores in the examples: the invoice with each of
  amount, tax and total equal to \<open>n\<close>, and the one line item that validates.
\<close>

definition storedInvoice :: "rat \<Rightarrow> Invoice" where
  "storedInvoice n =
     \<lparr>invId = 1, invoiceNumber = ''INV-0042'', jobId = 7, customerId = 3,
      amount = Num n, tax = Num n, invoiceTotal = Num n, issueDate = 1000, dueDate = 2000,
      invoiceNotes = None, paymentTerms = ''30'', paymentMethod = ''bank-transfer'',
      status = ''draft'', createdBy = 1\<rparr>"

definition storedIceRow :: InvoiceItem where
  "storedIceRow = \<lparr>itemId = 1, invoiceId = 1, description = ''Ice Blasting'',
                    quantity = Num 2, unitPrice = Num 100, total = Num 200\<rparr>"

definition dbAfterPost :: "rat \<Rightarrow> DB" where
  "dbAfterPost n = db0\<lparr>invoices := [storedInvoice n], invoiceItems := [storedIceRow],
                       nextInvoiceId := 2, nextItemId := 2\<rparr>"


section \<open>The invoice aggregator\<close>





text \<open>
  The row handlers keep \<open>total = quantity * unitPrice\<close>: a quantity edit when the unit
  price is a number, a unit price edit when the quantity is a number other than zero.
\<close>

lemma quantity_edit_keeps_total:
  assumes "isNum (unitPrice it)"
  shows "total (changedItem it (handleQuantityChange it parsed))
         = jmul (quantity (changedItem it (handleQuantityChange it parsed)))
                (unitPrice (changedItem it (handleQuantityChange it parsed)))"
  using assms
  by (cases "unitPrice it")
     (simp_all add: changedItem_def handleQuantityChange_def spread_def Let_def jsor_def)

lemma unit_price_edit_keeps_total:
  assumes "truthy (quantity it)"
  shows "total (changedItem it (handleUnitPriceChange it parsed))
         = jmul (quantity (changedItem it (handleUnitPriceChange it parsed)))
                (unitPrice (changedItem it (handleUnitPriceChange it parsed)))"
  using assms
  by (simp add: changedItem_def handleUnitPriceChange_def spread_def Let_def jsor_def)





section \<open>The rows of the edit state\<close>

lemma removeLineItem_nonempty: "lineItems (removeLineItem ex st i) \<noteq> []"
  by (simp add: removeLineItem_def Let_def)

lemma handleLineItemChange_length:
  "length (lineItems (handleLineItemChange st i item)) = length (lineItems st)"
  by (simp add: handleLineItemChange_def Let_def)


text \<open>
  C8. Removing the only line item leaves exactly one empty placeholder row (empty
  description, quantity 1, unit price 0, total 0); after add and after remove the edit
  state has at least one row, and an edit keeps a state that has a row non-empty.
\<close>

theorem at_least_one_row:
  "(lineItems st = [x] \<longrightarrow>
      lineItems (removeLineItem ex st 0)
        = [\<lparr>itemId = 0, invoiceId = existingId ex, description = [],
            quantity = Num 1, unitPrice = Num 0, total = Num 0\<rparr>])
   \<and> lineItems (addLineItem ex st) \<noteq> []
   \<and> lineItems (removeLineItem ex st i) \<noteq> []
   \<and> (lineItems st \<noteq> [] \<longrightarrow> lineItems (handleLineItemChange st i item) \<noteq> [])"
proof -
  have one: "lineItems st = [x] \<longrightarrow>
      lineItems (removeLineItem ex st 0)
        = [\<lparr>itemId = 0, invoiceId = existingId ex, description = [],
            quantity = Num 1, unitPrice = Num 0, total = Num 0\<rparr>]"
    by (simp add: removeLineItem_def Let_def emptyLineItem_def)
  have add: "lineItems (addLineItem ex st) \<noteq> []"
    by (simp add: addLineItem_def Let_def)
  have edit: "lineItems st \<noteq> [] \<longrightarrow> lineItems (handleLineItemChange st i item) \<noteq> []"
    using handleLineItemChange_length [of st i item] by auto
  show ?thesis using one add removeLineItem_nonempty edit by blast
qed

text \<open>C8, at the initial state of the form, whose one row is the empty placeholder.\<close>

theorem at_least_one_row_witness:
  "lineItems initialState = [emptyLineItem None]
   \<and> lineItems (removeLineItem None initialState 0) = [emptyLineItem None]
   \<and> lineItems (addLineItem None initialState) \<noteq> []
   \<and> lineItems (removeLineItem None initialState 0) \<noteq> []
   \<and> lineItems initialState \<noteq> []
   \<and> lineItems (handleLineItemChange initialState 0 mispriced) \<noteq> []"
proof -
  have h: "lineItems initialState = [emptyLineItem None]"
    by (simp add: initialState_def emptyLineItem_def existingId_def)
  have n: "lineItems initialState \<noteq> []" by (simp add: initialState_def)
  show ?thesis
    using h n at_least_one_row [where st = initialState and x = "emptyLineItem None"
                                  and ex = None and i = 0 and item = mispriced]
    by (simp add: emptyLineItem_def)
qed


section \<open>Coercion of quantity and unit price\<close>





section \<open>Password comparison\<close>

lemma hexval_hexchar: "n < 16 \<Longrightarrow> hexval (hexchar n) = Some n"
  by (auto simp: hexval_def hexchar_def Let_def)

lemma byte_nibbles: "of_nat (16 * (unat (b::byte) div 16) + unat b mod 16) = b"
  by simp

lemma unat_byte_div: "unat (b::byte) div 16 < 16"
proof -
  have "unat b < 256" using unsigned_less [of b] by simp
  then show ?thesis by simp
qed

text \<open>Decoding the hexadecimal text of a buffer gives the buffer back.\<close>

lemma fromHex_toHex: "fromHex (toHex buf) = buf"
proof (induction buf)
  case Nil
  show ?case by (simp add: toHex_def)
next
  case (Cons b buf)
  have t: "toHex (b # buf) = hexchar (unat b div 16) # hexchar (unat b mod 16) # toHex buf"
    by (simp add: toHex_def)
  have hi: "hexval (hexchar (unat b div 16)) = Some (unat b div 16)"
    by (rule hexval_hexchar [OF unat_byte_div])
  have lo: "hexval (hexchar (unat b mod 16)) = Some (unat b mod 16)"
    by (rule hexval_hexchar) simp
  show ?case unfolding t using hi lo Cons.IH byte_nibbles [of b] by simp
qed

lemma fromHex_length: "length (fromHex s) \<le> length s div 2"
  by (induction s rule: fromHex.induct) (auto split: option.splits)

lemma fromHex_zeros: "fromHex (replicate (2 * n) (CHR ''0'')) = replicate n 0"
  by (induction n) (simp_all add: hexval_def)

lemma splitOn_no_sep: "c \<notin> set s \<Longrightarrow> splitOn c s = [s]"
  by (induction s) auto

lemma splitOn_append: "c \<notin> set a \<Longrightarrow> splitOn c (a @ c # b) = a # splitOn c b"
  by (induction a) auto

lemma splitOn_two:
  "c \<notin> set a \<Longrightarrow> c \<notin> set b \<Longrightarrow> splitOn c (a @ c # b) = [a, b]"
  by (simp add: splitOn_append splitOn_no_sep)

text \<open>
  C3, as amended. For a stored credential \<open>hash.salt\<close> with both parts non-empty,
  \<open>comparePasswords\<close> accepts a supplied password if and only if the key derived from it
  with the stored salt equals the decoded stored hash, or the supplied password is
  "admin" or "test" and the stored text begins with one of the digests of the special
  cases. (The comparison of hexadecimal texts on buffers of different length never
  succeeds.)
\<close>

theorem comparePasswords_iff:
  assumes "stored = hashed @ CHR ''.'' # salt"
      and "CHR ''.'' \<notin> set hashed" and "CHR ''.'' \<notin> set salt"
      and "hashed \<noteq> []" and "salt \<noteq> []"
  shows "comparePasswords scrypt supplied stored
         = (adminSpecialCase supplied stored \<or> testSpecialCase supplied stored
            \<or> fromHex hashed = scrypt supplied salt 64)"
proof -
  have sp: "splitOn (CHR ''.'') stored = [hashed, salt]"
    unfolding assms(1) by (rule splitOn_two [OF assms(2) assms(3)])
  have inc: "includesChar stored (CHR ''.'')" and ne: "stored \<noteq> []"
    unfolding assms(1) by (simp_all add: includesChar_def)
  have fallback: "hashed \<noteq> toHex (scrypt supplied salt 64)"
    if "length (fromHex hashed) \<noteq> length (scrypt supplied salt 64)"
  proof
    assume "hashed = toHex (scrypt supplied salt 64)"
    then have "fromHex hashed = scrypt supplied salt 64" by (simp add: fromHex_toHex)
    with that show False by simp
  qed
  show ?thesis
    unfolding comparePasswords_def sp using inc ne assms(4) assms(5) fallback
    by (auto simp: Let_def)
qed

text \<open>
  C3, as amended, at the password "secret123": accepted for the credential of the user
  bob, whose hash decodes to the derived key, and rejected for the credential \<open>11.ab\<close>.
\<close>

theorem comparePasswords_iff_witness:
  "password bob = replicate 128 (CHR ''0'') @ CHR ''.'' # ''ab''
   \<and> CHR ''.'' \<notin> set (replicate 128 (CHR ''0'')) \<and> CHR ''.'' \<notin> set ''ab''
   \<and> replicate 128 (CHR ''0'') \<noteq> [] \<and> ''ab'' \<noteq> []
   \<and> \<not> adminSpecialCase ''secret123'' (password bob)
   \<and> \<not> testSpecialCase ''secret123'' (password bob)
   \<and> fromHex (replicate 128 (CHR ''0'')) = zeroKdf ''secret123'' ''ab'' 64
   \<and> comparePasswords zeroKdf ''secret123'' (password bob)
   \<and> fromHex ''11'' \<noteq> zeroKdf ''secret123'' ''ab'' 64
   \<and> \<not> comparePasswords zeroKdf ''secret123'' ''11.ab''"
proof -
  have h1: "password bob = replicate 128 (CHR ''0'') @ CHR ''.'' # ''ab''" by (simp add: bob_def)
  have h2: "CHR ''.'' \<notin> set (replicate 128 (CHR ''0''))" by simp
  have h3: "CHR ''.'' \<notin> set ''ab''" by simp
  have h4: "replicate 128 (CHR ''0'') \<noteq> []" by simp
  have h5: "''ab'' \<noteq> []" by simp
  have g1: "''11.ab'' = ''11'' @ CHR ''.'' # ''ab''" by simp
  have g2: "CHR ''.'' \<notin> set ''11''" by simp
  have g4: "''11'' \<noteq> []" by simp
  have s: "\<not> adminSpecialCase ''secret123'' stored" "\<not> testSpecialCase ''secret123'' stored"
    for stored
    by (simp_all add: adminSpecialCase_def testSpecialCase_def)
  have fh: "fromHex (replicate 128 (CHR ''0'')) = zeroKdf ''secret123'' ''ab'' 64"
    using fromHex_zeros [of 64] by (simp add: zeroKdf_def)
  have "length (fromHex ''11'') \<le> 1" using fromHex_length [of "''11''"] by simp
  then have fn: "fromHex ''11'' \<noteq> zeroKdf ''secret123'' ''ab'' 64"
    by (auto simp: zeroKdf_def)
  have yes: "comparePasswords zeroKdf ''secret123'' (password bob)"
    using comparePasswords_iff [OF h1 h2 h3 h4 h5, of zeroKdf "''secret123''"] fh by simp
  have no: "\<not> comparePasswords zeroKdf ''secret123'' ''11.ab''"
    using comparePasswords_iff [OF g1 g2 h3 g4 h5, of zeroKdf "''secret123''"] fn s by simp
  show ?thesis using h1 h2 h3 h4 h5 s fh fn yes no by blast
qed

text \<open>
  The admin special case accepts "admin" whatever the key derivation function is, and
  the digest it looks for decodes to 32 bytes, so it is no derived key of 64 bytes.
\<close>

lemma admin_special_case_any_kdf:
  "comparePasswords scrypt ''admin'' (adminDigest @ ''.ab'')"
proof -
  have d: "CHR ''.'' \<notin> set adminDigest" by (simp add: adminDigest_def)
  have sp: "splitOn (CHR ''.'') (adminDigest @ ''.ab'') = [adminDigest, ''ab'']"
    using splitOn_two [OF d, of "''ab''"] by simp
  have a: "adminSpecialCase ''admin'' (adminDigest @ ''.ab'')"
    by (simp add: adminSpecialCase_def startsWith_def adminDigest_def)
  have n: "adminDigest \<noteq> []" by (simp add: adminDigest_def)
  show ?thesis
    unfolding comparePasswords_def sp using a n by (simp add: includesChar_def)
qed

lemma admin_digest_is_no_64_byte_key:
  "length key = 64 \<Longrightarrow> fromHex adminDigest \<noteq> key"
proof
  assume k: "length key = 64" and e: "fromHex adminDigest = key"
  have "length (fromHex adminDigest) \<le> 32"
    using fromHex_length [of adminDigest] by (simp add: adminDigest_def)
  with k e show False by simp
qed

text \<open>
  C3 as first stated fails. The stored credential is the first admin digest, a dot and
  the salt \<open>ab\<close>; the password "admin" is accepted although the stored hash is not the
  key derived from "admin" with that salt.
\<close>

theorem comparePasswords_special_case:
  "splitOn (CHR ''.'') (adminDigest @ ''.ab'') = [adminDigest, ''ab'']
   \<and> comparePasswords zeroKdf ''admin'' (adminDigest @ ''.ab'')
   \<and> fromHex adminDigest \<noteq> zeroKdf ''admin'' ''ab'' 64"
proof -
  have d: "CHR ''.'' \<notin> set adminDigest" by (simp add: adminDigest_def)
  have sp: "splitOn (CHR ''.'') (adminDigest @ ''.ab'') = [adminDigest, ''ab'']"
    using splitOn_two [OF d, of "''ab''"] by simp
  have ne: "fromHex adminDigest \<noteq> zeroKdf ''admin'' ''ab'' 64"
    by (rule admin_digest_is_no_64_byte_key) (simp add: zeroKdf_def)
  show ?thesis using sp admin_special_case_any_kdf [of zeroKdf] ne by simp
qed


section \<open>Approval of users\<close>

lemma first_of_filter: "(case filter P xs of [] \<Rightarrow> None | r # _ \<Rightarrow> Some r) = find P xs"
  by (induction xs) auto

lemma find_map_same_key:
  assumes "\<And>x. key (g x) = key x"
  shows "find (\<lambda>u. key u = k) (map g xs) = map_option g (find (\<lambda>u. key u = k) xs)"
  using assms by (induction xs) auto

lemma setUser_approve:
  "setUser \<lparr>u_username = None, u_password = None, u_email = None,
            u_fullName = None, u_role = None, u_approved = Some True\<rparr> u = u\<lparr>approved := True\<rparr>"
  by (simp add: setUser_def)

lemma updateUser_approve:
  "updateUser db uid \<lparr>u_username = None, u_password = None, u_email = None,
            u_fullName = None, u_role = None, u_approved = Some True\<rparr>
   = (map_option (approveRow uid) (getUser db uid), db\<lparr>users := map (approveRow uid) (users db)\<rparr>)"
proof -
  have k: "\<And>x. userId (approveRow uid x) = userId x" by (simp add: approveRow_def)
  have m: "(\<lambda>u. if userId u = uid then u\<lparr>approved := True\<rparr> else u) = approveRow uid"
    by (rule ext) (simp add: approveRow_def)
  show ?thesis
    unfolding updateUser_def Let_def setUser_approve m first_of_filter getUser_def
    using find_map_same_key [of userId "approveRow uid", OF k] by simp
qed

lemma approveRow_idem: "approveRow uid \<circ> approveRow uid = approveRow uid"
  by (rule ext) (simp add: approveRow_def)

lemma getUser_id: "getUser db uid = Some u \<Longrightarrow> userId u = uid"
  by (auto simp: getUser_def dest: find_Some_iff[THEN iffD1])

lemma patchUsersApprove_admin:
  assumes "role c = ''admin''" "getUser db uid = Some u"
  shows "patchUsersApprove db (Some c) (Some uid)
         = (UserJson 200 (u\<lparr>approved := True\<rparr>), db\<lparr>users := map (approveRow uid) (users db)\<rparr>)"
  using assms getUser_id [OF assms(2)]
  by (simp add: patchUsersApprove_def isAdmin_def updateUser_approve approveRow_def)

lemma getUser_after_approve:
  "getUser (db\<lparr>users := map (approveRow uid) (users db)\<rparr>) k
   = map_option (approveRow uid) (getUser db k)"
proof -
  have k: "\<And>x. userId (approveRow uid x) = userId x" by (simp add: approveRow_def)
  show ?thesis
    unfolding getUser_def using find_map_same_key [of userId "approveRow uid", OF k] by simp
qed

lemma getUserByUsername_after_approve:
  "getUserByUsername (db\<lparr>users := map (approveRow uid) (users db)\<rparr>) n
   = map_option (approveRow uid) (getUserByUsername db n)"
proof -
  have k: "\<And>x. username (approveRow uid x) = username x" by (simp add: approveRow_def)
  show ?thesis
    unfolding getUserByUsername_def
    using find_map_same_key [of username "approveRow uid", OF k] by simp
qed

text \<open>
  C6. Approve is idempotent: for an existing user id and admin callers, the first call
  answers 200 with the user approved, the second call answers the same and leaves the
  database as the first call left it, and the user is approved in it.
\<close>

theorem approve_idempotent:
  assumes "role c1 = ''admin''" and "role c2 = ''admin''" and "getUser db uid = Some u"
  shows "fst (patchUsersApprove db (Some c1) (Some uid)) = UserJson 200 (u\<lparr>approved := True\<rparr>)
       \<and> patchUsersApprove (snd (patchUsersApprove db (Some c1) (Some uid))) (Some c2) (Some uid)
           = (UserJson 200 (u\<lparr>approved := True\<rparr>),
              snd (patchUsersApprove db (Some c1) (Some uid)))
       \<and> getUser (snd (patchUsersApprove db (Some c1) (Some uid))) uid
           = Some (u\<lparr>approved := True\<rparr>)"
proof -
  let ?db1 = "db\<lparr>users := map (approveRow uid) (users db)\<rparr>"
  have first: "patchUsersApprove db (Some c1) (Some uid)
               = (UserJson 200 (u\<lparr>approved := True\<rparr>), ?db1)"
    by (rule patchUsersApprove_admin [OF assms(1) assms(3)])
  have uid: "userId u = uid" by (rule getUser_id [OF assms(3)])
  have g1: "getUser ?db1 uid = Some (u\<lparr>approved := True\<rparr>)"
    using assms(3) uid by (simp add: getUser_after_approve approveRow_def)
  have second: "patchUsersApprove ?db1 (Some c2) (Some uid)
                = (UserJson 200 (u\<lparr>approved := True\<rparr>), ?db1)"
    using patchUsersApprove_admin [OF assms(2) g1] by (simp add: approveRow_idem)
  show ?thesis using first second g1 by simp
qed

text \<open>C6, at the admin and the user bob of the example database.\<close>

theorem approve_idempotent_witness:
  "role adminUser = ''admin'' \<and> getUser db0 2 = Some bob
   \<and> fst (patchUsersApprove db0 (Some adminUser) (Some 2)) = UserJson 200 (bob\<lparr>approved := True\<rparr>)
   \<and> patchUsersApprove (snd (patchUsersApprove db0 (Some adminUser) (Some 2)))
        (Some adminUser) (Some 2)
       = (UserJson 200 (bob\<lparr>approved := True\<rparr>),
          snd (patchUsersApprove db0 (Some adminUser) (Some 2)))
   \<and> getUser (snd (patchUsersApprove db0 (Some adminUser) (Some 2))) 2
       = Some (bob\<lparr>approved := True\<rparr>)"
proof -
  have a: "role adminUser = ''admin''" by (simp add: adminUser_def)
  have g: "getUser db0 2 = Some bob"
    by (simp add: getUser_def db0_def adminUser_def bob_def)
  show ?thesis using a g approve_idempotent [OF a a g] by simp
qed

text \<open>
  C2. A stored user with role staff and approved = false cannot authenticate, even with
  a password that \<open>comparePasswords\<close> accepts; after an admin has approved the user, the
  same credentials authenticate and the verify callback returns that user, approved.
\<close>

theorem pending_then_approved:
  assumes "getUserByUsername db name = Some u" and "getUser db (userId u) = Some u"
      and "role u = ''staff''" and "\<not> approved u"
      and "comparePasswords scrypt pw (password u)" and "role c = ''admin''"
  shows "verify scrypt db name pw
           = AuthFail ''Your account is pending approval by an administrator''
       \<and> fst (patchUsersApprove db (Some c) (Some (userId u)))
           = UserJson 200 (u\<lparr>approved := True\<rparr>)
       \<and> verify scrypt (snd (patchUsersApprove db (Some c) (Some (userId u)))) name pw
           = AuthOk (u\<lparr>approved := True\<rparr>)"
proof -
  let ?db1 = "db\<lparr>users := map (approveRow (userId u)) (users db)\<rparr>"
  have before: "verify scrypt db name pw
                = AuthFail ''Your account is pending approval by an administrator''"
    using assms by (simp add: verify_def)
  have call: "patchUsersApprove db (Some c) (Some (userId u))
              = (UserJson 200 (u\<lparr>approved := True\<rparr>), ?db1)"
    by (rule patchUsersApprove_admin [OF assms(6) assms(2)])
  have found: "getUserByUsername ?db1 name = Some (u\<lparr>approved := True\<rparr>)"
    using assms(1) by (simp add: getUserByUsername_after_approve approveRow_def)
  have after: "verify scrypt ?db1 name pw = AuthOk (u\<lparr>approved := True\<rparr>)"
    using found assms(5) by (simp add: verify_def)
  show ?thesis using before call after by simp
qed

lemma bob_password_accepted: "comparePasswords zeroKdf ''secret123'' (password bob)"
proof -
  have sp: "splitOn (CHR ''.'') (password bob) = [replicate 128 (CHR ''0''), ''ab'']"
    using splitOn_two [of "CHR ''.''" "replicate 128 (CHR ''0'')" "''ab''"]
    by (simp add: bob_def)
  have fh: "fromHex (replicate 128 (CHR ''0'')) = replicate 64 0"
    using fromHex_zeros [of 64] by simp
  show ?thesis
    unfolding comparePasswords_def sp
    by (simp add: fh zeroKdf_def includesChar_def adminSpecialCase_def testSpecialCase_def bob_def)
qed

text \<open>
  C2, at the scenario of the user bob with the password "secret123": login fails while
  bob is pending, the admin approves, login succeeds and returns bob with role staff.
\<close>

theorem pending_then_approved_witness:
  "getUserByUsername db0 ''bob'' = Some bob \<and> getUser db0 (userId bob) = Some bob
   \<and> role bob = ''staff'' \<and> \<not> approved bob
   \<and> comparePasswords zeroKdf ''secret123'' (password bob) \<and> role adminUser = ''admin''
   \<and> verify zeroKdf db0 ''bob'' ''secret123''
       = AuthFail ''Your account is pending approval by an administrator''
   \<and> fst (patchUsersApprove db0 (Some adminUser) (Some (userId bob)))
       = UserJson 200 (bob\<lparr>approved := True\<rparr>)
   \<and> verify zeroKdf (snd (patchUsersApprove db0 (Some adminUser) (Some (userId bob))))
        ''bob'' ''secret123''
       = AuthOk (bob\<lparr>approved := True\<rparr>)"
proof -
  have n: "getUserByUsername db0 ''bob'' = Some bob"
    by (simp add: getUserByUsername_def db0_def adminUser_def bob_def)
  have g: "getUser db0 (userId bob) = Some bob"
    by (simp add: getUser_def db0_def adminUser_def bob_def)
  have r: "role bob = ''staff''" and p: "\<not> approved bob" by (simp_all add: bob_def)
  have a: "role adminUser = ''admin''" by (simp add: adminUser_def)
  show ?thesis
    using n g r p a bob_password_accepted
          pending_then_approved [OF n g r p bob_password_accepted a]
    by simp
qed


section \<open>Deleting users\<close>

text \<open>
  C10. An authenticated admin who calls \<open>DELETE /api/staff/:id\<close> with their own id gets
  status 400, and the database is unchanged.
\<close>

theorem deleteStaff_self:
  "role u = ''admin'' \<Longrightarrow>
   deleteStaff db (Some u) (Some (userId u)) = (Message 400 ''Cannot delete your own account'', db)"
  by (simp add: deleteStaff_def)

text \<open>C10, at the admin of the example database.\<close>

theorem deleteStaff_self_witness:
  "role adminUser = ''admin''
   \<and> deleteStaff db0 (Some adminUser) (Some (userId adminUser))
       = (Message 400 ''Cannot delete your own account'', db0)"
proof -
  have h: "role adminUser = ''admin''" by (simp add: adminUser_def)
  show ?thesis using h deleteStaff_self [OF h, of db0] by simp
qed

text \<open>
  C7. \<open>DELETE /api/users/:id\<close> by an admin, for the id 999 that no user has: the
  handler answers 200 "User deleted successfully", not 404, because \<open>deleteUser\<close>
  returns \<open>true\<close> whatever it deleted.
\<close>

theorem deleteUsers_unknown_id_reports_success:
  "getUser db0 999 = None
   \<and> deleteUsers db0 (Some adminUser) (Some 999) = (Message 200 ''User deleted successfully'', db0)"
  by (simp add: getUser_def deleteUsers_def deleteUser_def isAdmin_def db0_def adminUser_def
                bob_def)


section \<open>Creating an invoice\<close>

lemma createLineItems_effect:
  "\<exists>new. createLineItems db iid items acc
           = (acc @ new, db\<lparr>invoiceItems := invoiceItems db @ new,
                             nextItemId := nextItemId db + int (length new)\<rparr>)
         \<and> map description new = List.map_filter i_description items"
proof (induction items arbitrary: db acc)
  case Nil
  show ?case by simp
next
  case (Cons item rest)
  show ?case
  proof (cases "parseItem iid item")
    case None
    then have d: "i_description item = None"
      by (simp add: parseItem_def split: option.splits)
    from Cons.IH [of db acc] show ?thesis
      by (simp add: None d)
  next
    case (Some v)
    then obtain dsc where d: "i_description item = Some dsc" and v: "m_description v = dsc"
      by (auto simp: parseItem_def split: option.splits)
    obtain row db1 where c: "createInvoiceItem db v = (row, db1)"
      by (cases "createInvoiceItem db v")
    then have row: "description row = dsc"
      and db1: "db1 = db\<lparr>invoiceItems := invoiceItems db @ [row],
                           nextItemId := nextItemId db + 1\<rparr>"
      using v by (auto simp: createInvoiceItem_def Let_def)
    from Cons.IH [of db1 "acc @ [row]"] obtain new where
      n: "createLineItems db1 iid rest (acc @ [row])
           = ((acc @ [row]) @ new, db1\<lparr>invoiceItems := invoiceItems db1 @ new,
                             nextItemId := nextItemId db1 + int (length new)\<rparr>)"
      and m: "map description new = List.map_filter i_description rest"
      by blast
    show ?thesis
      apply (rule exI [of _ "row # new"])
      using n m by (simp add: Some c d row db1)
  qed
qed

lemma createInvoice_effect:
  "createInvoice db v = Some (invoice, db1) \<Longrightarrow>
     db1 = db\<lparr>invoices := invoices db @ [invoice], nextInvoiceId := nextInvoiceId db + 1\<rparr>
     \<and> amount invoice = n_amount v \<and> tax invoice = n_tax v \<and> invoiceTotal invoice = n_total v"
  by (auto simp: createInvoice_def Let_def split: if_splits)

lemma parseInvoice_totals:
  "parseInvoice user now number job customer body = Some v \<Longrightarrow>
     n_amount v = parseFloatOr (b_amount body) 0 \<and> n_tax v = parseFloatOr (b_tax body) 0
     \<and> n_total v = parseFloatOr (b_total body) 0"
  by (auto simp: parseInvoice_def split: option.splits)

text \<open>The one path of the handler that answers with an invoice.\<close>

lemma postInvoices_created:
  assumes "postInvoices db caller now generated body = (InvoiceJson st invoice created, db')"
  shows "\<exists>items v db1.
           b_lineItems body = Some items
         \<and> n_amount v = parseFloatOr (b_amount body) 0
         \<and> n_tax v = parseFloatOr (b_tax body) 0
         \<and> n_total v = parseFloatOr (b_total body) 0
         \<and> createInvoice db v = Some (invoice, db1)
         \<and> createLineItems db1 (invId invoice) items [] = (created, db')"
  using assms unfolding postInvoices_def Let_def
  by (auto simp del: createLineItems.simps
           split: option.splits if_splits list.splits prod.splits dest: parseInvoice_totals)


text \<open>
  The handler on the example requests: one line item that validates, with or without
  another one that has no description.
\<close>

lemma post_example:
  assumes "n \<noteq> 0"
  shows "postInvoices db0 (Some adminUser) 0 ''0042'' (invoiceBody n [iceBlasting])
         = (InvoiceJson 201 (storedInvoice n) [storedIceRow], dbAfterPost n)"
    and "postInvoices db0 (Some adminUser) 0 ''0042'' (invoiceBody n [iceBlasting, noDescription])
         = (InvoiceJson 201 (storedInvoice n) [storedIceRow], dbAfterPost n)"
    and "postInvoices db0 (Some adminUser) 0 ''0042'' (invoiceBody n [noDescription, iceBlasting])
         = (InvoiceJson 201 (storedInvoice n) [storedIceRow], dbAfterPost n)"
  using assms
  by (simp_all add: postInvoices_def invoiceBody_def iceBlasting_def noDescription_def
        parseInvoice_def createInvoice_def parseItem_def createInvoiceItem_def Let_def
        db0_def adminUser_def parseFloatOr_def parseIntOr_def jsor_def
        storedInvoice_def storedIceRow_def dbAfterPost_def)

text \<open>
  C4, as amended. When \<open>POST /api/invoices\<close> creates an invoice, the stored amount, tax
  and total are the amount, tax and total fields of the request body (0 for a field that
  is absent or zero), whatever the line items are; the invoice is appended to the table.
\<close>

theorem stored_totals_are_the_submitted_ones:
  assumes "postInvoices db caller now generated body = (InvoiceJson st invoice created, db')"
  shows "amount invoice = parseFloatOr (b_amount body) 0
       \<and> tax invoice = parseFloatOr (b_tax body) 0
       \<and> invoiceTotal invoice = parseFloatOr (b_total body) 0
       \<and> invoices db' = invoices db @ [invoice]"
proof -
  from postInvoices_created [OF assms] obtain items v db1 where
    v: "n_amount v = parseFloatOr (b_amount body) 0" "n_tax v = parseFloatOr (b_tax body) 0"
       "n_total v = parseFloatOr (b_total body) 0"
    and c: "createInvoice db v = Some (invoice, db1)"
    and l: "createLineItems db1 (invId invoice) items [] = (created, db')"
    by blast
  from createLineItems_effect [of db1 "invId invoice" items "[]"] l
  have "invoices db' = invoices db1" by auto
  with createInvoice_effect [OF c] v show ?thesis by simp
qed

text \<open>
  C4, as amended, at a request whose amount, tax and total fields are all 200 and whose
  one line item is 2 at 100.
\<close>

theorem stored_totals_are_the_submitted_ones_witness:
  "postInvoices db0 (Some adminUser) 0 ''0042'' (invoiceBody 200 [iceBlasting])
     = (InvoiceJson 201 (storedInvoice 200) [storedIceRow], dbAfterPost 200)
   \<and> amount (storedInvoice 200) = parseFloatOr (b_amount (invoiceBody 200 [iceBlasting])) 0
   \<and> tax (storedInvoice 200) = parseFloatOr (b_tax (invoiceBody 200 [iceBlasting])) 0
   \<and> invoiceTotal (storedInvoice 200) = parseFloatOr (b_total (invoiceBody 200 [iceBlasting])) 0
   \<and> invoices (dbAfterPost 200) = invoices db0 @ [storedInvoice 200]"
proof -
  have h: "postInvoices db0 (Some adminUser) 0 ''0042'' (invoiceBody 200 [iceBlasting])
           = (InvoiceJson 201 (storedInvoice 200) [storedIceRow], dbAfterPost 200)"
    by (rule post_example(1)) simp
  show ?thesis using h stored_totals_are_the_submitted_ones [OF h] by simp
qed

text \<open>
  C4 as first stated fails. A request with amount, tax and total 1 and the one line item
  2 at 100 (line total 200) stores an invoice with amount 1, tax 1 and total 1.
\<close>

theorem postInvoices_keeps_submitted_totals:
  "postInvoices db0 (Some adminUser) 0 ''0042'' (invoiceBody 1 [iceBlasting])
     = (InvoiceJson 201 (storedInvoice 1) [storedIceRow], dbAfterPost 1)
   \<and> invoices (dbAfterPost 1) = [storedInvoice 1]
   \<and> amount (storedInvoice 1) = Num 1 \<and> tax (storedInvoice 1) = Num 1
   \<and> invoiceTotal (storedInvoice 1) = Num 1
   \<and> map total (invoiceItems (dbAfterPost 1)) = [Num 200]"
  using post_example(1) [of 1]
  by (simp add: storedInvoice_def storedIceRow_def dbAfterPost_def)




end
